theory Spec2Isabelle
  imports Main "HOL-Library.Sublist" "HOL-Library.AList" "HOL-Library.Word"
begin

section \<open>context.go: parameters, requests, responses, the execution context\<close>

text \<open>
  \<^verbatim>\<open>type Param struct { Key string; Value string }\<close> and
  \<^verbatim>\<open>type Params []Param\<close>.
\<close>

record Param =
  Key :: string
  Value :: string

type_synonym Params = "Param list"

text \<open>
  A Go \<^verbatim>\<open>interface{}\<close> value is either the nil interface or a dynamic value.
\<close>

datatype 'a iface = GoNil | Boxed 'a

text \<open>
  What the code reads and writes of \<^verbatim>\<open>*http.Request\<close> (package net/http, outside the
  repository): the method, the URL path, and \<^verbatim>\<open>Form\<close>, a \<^verbatim>\<open>url.Values\<close>
  (\<^verbatim>\<open>map[string][]string\<close>; a key that is not in the map reads as the empty slice).
\<close>

record Request =
  Method :: string
  Path :: string
  Form :: "string \<Rightarrow> string list"

text \<open>\<^verbatim>\<open>url.Values.Add\<close>: \<^verbatim>\<open>v[key] = append(v[key], value)\<close>.\<close>

definition Values_Add :: "(string \<Rightarrow> string list) \<Rightarrow> string \<Rightarrow> string \<Rightarrow> (string \<Rightarrow> string list)" where
  "Values_Add v k x = v(k := v k @ [x])"

text \<open>
  Modelled from the spec: the \<^verbatim>\<open>Response\<close> type (response.go is not under src/). The
  spec treats response I/O as an opaque writer of status, headers and body, so the model
  keeps exactly these three: the header map (\<^verbatim>\<open>http.Header\<close>, a multi-map), the status
  line (\<open>None\<close> until one is written) and the body written so far. \<open>Response_reset\<close>
  installs the writer of the new request; \<open>WriteHeader\<close> writes the status line once,
  as a \<^verbatim>\<open>http.ResponseWriter\<close> does; \<open>Write\<close> sends status 200 first when none
  was written.
\<close>

record Response =
  header :: "string \<Rightarrow> string list"
  status :: "nat option"
  body :: string

definition fresh_writer :: Response where
  "fresh_writer = \<lparr>header = (\<lambda>_. []), status = None, body = []\<rparr>"

definition Response_reset :: "Response \<Rightarrow> Response \<Rightarrow> Response" where
  "Response_reset w old = w"

definition Header_Add :: "string \<Rightarrow> string \<Rightarrow> Response \<Rightarrow> Response" where
  "Header_Add k x res = res\<lparr>header := (header res)(k := header res k @ [x])\<rparr>"

definition Header_Set :: "string \<Rightarrow> string \<Rightarrow> Response \<Rightarrow> Response" where
  "Header_Set k x res = res\<lparr>header := (header res)(k := [x])\<rparr>"

definition WriteHeader :: "nat \<Rightarrow> Response \<Rightarrow> Response" where
  "WriteHeader code res = (if status res = None then res\<lparr>status := Some code\<rparr> else res)"

definition Write :: "string \<Rightarrow> Response \<Rightarrow> Response" where
  "Write b res = (let res' = WriteHeader 200 res in res'\<lparr>body := body res' @ b\<rparr>)"

text \<open>
  A \<^verbatim>\<open>HandlerFunc\<close> is a Go function value. The chains of the router hold the two
  handlers of lars.go, the redirect closure the dispatcher builds, and the handlers the
  application registers; a chain is modelled as a list of references to them, and the
  application's handlers are looked up by number in a table.
\<close>

datatype handler_ref = Default404 | MethodNotAllowed | Redirect nat string | User nat

type_synonym HandlersChain = "handler_ref list"

text \<open>\<^verbatim>\<open>chainMethods\<close>: the map from method name to chain that lars.go reads under
  the key "methods". Its declaration is not under src/; the code of lars.go ranges over
  its keys, which are method names.\<close>

type_synonym chainMethods = "(string \<times> HandlersChain) list"

text \<open>The dynamic values the dispatcher and the examples store in a context.\<close>

datatype dynval = ChainMethods chainMethods | StringV string | IntV int

text \<open>
  \<^verbatim>\<open>type Ctx struct\<close>. The embedded \<^verbatim>\<open>context.Context\<close> (package
  golang.org/x/net/context, outside the repository) is the chain of
  \<^verbatim>\<open>WithValue\<close> links down to \<^verbatim>\<open>Background()\<close>, newest link first.
  The fields \<^verbatim>\<open>websocket\<close> and \<^verbatim>\<open>parent\<close> are left out: no modelled function
  reads the first, and the second is the context itself unless a custom context wraps it.
  \<^verbatim>\<open>index\<close> is a Go \<^verbatim>\<open>int\<close>.
\<close>

record ('k, 'v) Ctx =
  Context :: "('k \<times> 'v iface) list"
  request :: Request
  response :: Response
  params :: Params
  handlers :: HandlersChain
  handlerName :: string
  index :: int
  formParsed :: bool
  multipartFormParsed :: bool

definition blank :: string where
  "blank = []"

text \<open>\<^verbatim>\<open>context.Background()\<close>: the empty chain.\<close>

definition Background :: "('k \<times> 'v iface) list" where
  "Background = []"

text \<open>\<^verbatim>\<open>context.WithValue(parent, key, val)\<close>: one more link in front.\<close>

definition WithValue :: "('k \<times> 'v iface) list \<Rightarrow> 'k \<Rightarrow> 'v iface \<Rightarrow> ('k \<times> 'v iface) list" where
  "WithValue parent key val = (key, val) # parent"

text \<open>\<^verbatim>\<open>(*valueCtx).Value(key)\<close>: the value of the newest link with that key, nil at
  \<^verbatim>\<open>Background()\<close>.\<close>

fun ctx_Value :: "('k \<times> 'v iface) list \<Rightarrow> 'k \<Rightarrow> 'v iface" where
  "ctx_Value [] key = GoNil"
| "ctx_Value ((k, v) # parent) key = (if k = key then v else ctx_Value parent key)"

subsection \<open>RequestStart\<close>

definition Ctx_RequestStart :: "Response \<Rightarrow> Request \<Rightarrow> ('k, 'v) Ctx \<Rightarrow> ('k, 'v) Ctx" where
  "Ctx_RequestStart w r c =
     c\<lparr>request := r,
       response := Response_reset w (response c),
       params := take 0 (params c),
       Context := Background,
       index := - 1,
       handlers := [],
       formParsed := False,
       multipartFormParsed := False\<rparr>"

subsection \<open>Param\<close>

text \<open>The loop of \<^verbatim>\<open>Ctx.Param\<close> over \<^verbatim>\<open>c.params\<close>.\<close>

fun Param_range :: "Params \<Rightarrow> string \<Rightarrow> string" where
  "Param_range [] name = blank"
| "Param_range (entry # rest) name =
     (if Key entry = name then Value entry else Param_range rest name)"

definition Ctx_Param :: "('k, 'v) Ctx \<Rightarrow> string \<Rightarrow> string" where
  "Ctx_Param c name = Param_range (params c) name"

subsection \<open>ParseForm\<close>

text \<open>
  \<^verbatim>\<open>c.request.ParseForm()\<close> belongs to net/http; it is the parameter \<open>parse\<close>, which
  returns the error (\<open>None\<close> is nil) and the request as it leaves it. The loop adds
  every parameter to \<^verbatim>\<open>c.request.Form\<close>.
\<close>

fun Form_range :: "Params \<Rightarrow> (string \<Rightarrow> string list) \<Rightarrow> (string \<Rightarrow> string list)" where
  "Form_range [] form = form"
| "Form_range (entry # rest) form = Form_range rest (Values_Add form (Key entry) (Value entry))"

definition Ctx_ParseForm ::
  "(Request \<Rightarrow> string option \<times> Request) \<Rightarrow> ('k, 'v) Ctx \<Rightarrow> string option \<times> ('k, 'v) Ctx" where
  "Ctx_ParseForm parse c =
     (if formParsed c then (None, c)
      else
        (case parse (request c) of
           (Some err, r') \<Rightarrow> (Some err, c\<lparr>request := r'\<rparr>)
         | (None, r') \<Rightarrow>
             (None, c\<lparr>request := r'\<lparr>Form := Form_range (params c) (Form r')\<rparr>,
                      formParsed := True\<rparr>)))"

subsection \<open>Set and Get\<close>

definition Ctx_Set :: "('k, 'v) Ctx \<Rightarrow> 'k \<Rightarrow> 'v iface \<Rightarrow> ('k, 'v) Ctx" where
  "Ctx_Set c key val = c\<lparr>Context := WithValue (Context c) key val\<rparr>"

definition Ctx_Get :: "('k, 'v) Ctx \<Rightarrow> 'k \<Rightarrow> 'v iface \<times> bool" where
  "Ctx_Get c key = (let val = ctx_Value (Context c) key; exists = (val \<noteq> GoNil) in (val, exists))"

text \<open>A run of \<^verbatim>\<open>Set\<close> calls, in order.\<close>

fun Ctx_Sets :: "('k, 'v) Ctx \<Rightarrow> ('k \<times> 'v iface) list \<Rightarrow> ('k, 'v) Ctx" where
  "Ctx_Sets c [] = c"
| "Ctx_Sets c ((key, val) # kvs) = Ctx_Sets (Ctx_Set c key val) kvs"

subsection \<open>Handlers and Next\<close>

text \<open>
  A handler returns nothing; it ends by returning or by a panic that unwinds through its
  callers. What a handler does outside the context (the events a test records, say) is
  the second component of the state. \<open>OutOfFuel\<close> is the bound of the model on the depth
  of nested calls, not a behaviour of the code.
\<close>

datatype panic = IndexOutOfRange | InterfaceConversion

datatype 's outcome = Returned 's | Panicked panic 's | OutOfFuel

text \<open>
  A handler is called with the context; the calls it makes to \<^verbatim>\<open>c.Next()\<close> are calls
  of its first argument.
\<close>

type_synonym ('k, 'v, 'w) HandlerFunc =
  "(('k, 'v) Ctx \<times> 'w \<Rightarrow> (('k, 'v) Ctx \<times> 'w) outcome) \<Rightarrow>
   ('k, 'v) Ctx \<times> 'w \<Rightarrow> (('k, 'v) Ctx \<times> 'w) outcome"

text \<open>
  \<^verbatim>\<open>c.index++; c.handlers[c.index](c.parent)\<close>. Indexing a slice outside
  \<open>0 \<le> i < len\<close> panics. \<open>impl\<close> gives the function behind each reference of the chain.
\<close>

fun Ctx_Next ::
  "nat \<Rightarrow> (handler_ref \<Rightarrow> ('k, 'v, 'w) HandlerFunc) \<Rightarrow> ('k, 'v) Ctx \<times> 'w \<Rightarrow> (('k, 'v) Ctx \<times> 'w) outcome" where
  "Ctx_Next 0 impl (c, w) = OutOfFuel"
| "Ctx_Next (Suc fuel) impl (c, w) =
     (let c' = c\<lparr>index := index c + 1\<rparr> in
      if 0 \<le> index c' \<and> index c' < int (length (handlers c'))
      then impl (handlers c' ! nat (index c')) (Ctx_Next fuel impl) (c', w)
      else Panicked IndexOutOfRange (c', w))"

section \<open>The route tree\<close>

text \<open>
  Modelled from the spec: the \<^verbatim>\<open>node\<close> type of the route tree (its file is not under
  src/; lars.go only builds \<^verbatim>\<open>&node{static: nodes{}}\<close>). Following sections 2, 3 and
  4.1 of the spec, a node owns a label (a literal prefix), its static children, at most
  one parameter child with the parameter's name, at most one wildcard child with its
  capture name, and the chains of the methods for which it is a terminal. A static child
  is keyed by its branching byte, the first byte of its label; a wildcard child is always
  a leaf, so it holds only the chains of its methods.
\<close>

datatype node =
  Node (label: string)
       (static: "node list")
       (param: "(string \<times> node) option")
       (wild: "(string \<times> chainMethods) option")
       (chains: chainMethods)

section \<open>lars.go: the router instance and its default handlers\<close>

definition GET :: string where
  "GET = ''GET''"

definition HEAD :: string where
  "HEAD = ''HEAD''"

definition POST :: string where
  "POST = ''POST''"


definition StatusNotFound :: nat where
  "StatusNotFound = 404"

definition StatusMethodNotAllowed :: nat where
  "StatusMethodNotAllowed = 405"

definition StatusMovedPermanently :: nat where
  "StatusMovedPermanently = 301"

definition StatusTemporaryRedirect :: nat where
  "StatusTemporaryRedirect = 307"

text \<open>
  \<^verbatim>\<open>type LARS struct\<close>: the embedded route group with its middleware, the head of the
  tree, and the settings. The pool and the context constructor are left to the caller of
  \<open>serveHTTP\<close>, which is handed the context the pool returns.
\<close>

record LARS =
  middleware :: HandlersChain
  head :: node
  mostParams :: "8 word"
  http404 :: HandlersChain
  http405 :: HandlersChain
  redirectTrailingSlash :: bool
  handleMethodNotAllowed :: bool

text \<open>
  \<^verbatim>\<open>http.Error(w, error, code)\<close> of net/http: the two headers, the status line, the
  text and a newline.
\<close>

definition http_Error :: "Response \<Rightarrow> string \<Rightarrow> nat \<Rightarrow> Response" where
  "http_Error w err code =
     Write (err @ [CHR 0x0A])
       (WriteHeader code
         (Header_Set ''X-Content-Type-Options'' ''nosniff''
           (Header_Set ''Content-Type'' ''text/plain; charset=utf-8'' w)))"

text \<open>\<^verbatim>\<open>http.StatusText(http.StatusNotFound)\<close>.\<close>

definition StatusText_NotFound :: string where
  "StatusText_NotFound = ''Not Found''"

definition default404Handler :: "('k, 'v, 'w) HandlerFunc" where
  "default404Handler next = (\<lambda>(c, w).
     Returned (c\<lparr>response := http_Error (response c) StatusText_NotFound StatusNotFound\<rparr>, w))"

text \<open>The loop of \<^verbatim>\<open>methodNotAllowedHandler\<close> over the keys of the map, in the order
  the map yields them.\<close>

fun Allow_range :: "chainMethods \<Rightarrow> Response \<Rightarrow> Response" where
  "Allow_range [] res = res"
| "Allow_range ((k, hs) # rest) res = Allow_range rest (Header_Add ''Allow'' k res)"

text \<open>The type assertion \<^verbatim>\<open>m.(chainMethods)\<close> panics on nil and on any other type.\<close>

definition methodNotAllowedHandler :: "(string, dynval, 'w) HandlerFunc" where
  "methodNotAllowedHandler next = (\<lambda>(c, w).
     (case fst (Ctx_Get c ''methods'') of
        Boxed (ChainMethods methods) \<Rightarrow>
          Returned (c\<lparr>response := WriteHeader StatusMethodNotAllowed (Allow_range methods (response c))\<rparr>, w)
      | _ \<Rightarrow> Panicked InterfaceConversion (c, w)))"

definition New :: LARS where
  "New =
     \<lparr>middleware = [],
      head = Node [] [] None None [],
      mostParams = 0,
      http404 = [Default404],
      http405 = [MethodNotAllowed],
      redirectTrailingSlash = True,
      handleMethodNotAllowed = False\<rparr>"

definition SetRedirectTrailingSlash :: "LARS \<Rightarrow> bool \<Rightarrow> LARS" where
  "SetRedirectTrailingSlash l b = l\<lparr>redirectTrailingSlash := b\<rparr>"


text \<open>
  Modelled from the spec: the redirect handler the dispatcher puts in the chain
  (the function that builds it is not under src/). It answers with the status code and the
  \<^verbatim>\<open>Location\<close> it was built with, as \<^verbatim>\<open>http.Redirect\<close> does.
\<close>

definition redirectHandler :: "nat \<Rightarrow> string \<Rightarrow> ('k, 'v, 'w) HandlerFunc" where
  "redirectHandler code to next = (\<lambda>(c, w).
     Returned (c\<lparr>response := WriteHeader code (Header_Set ''Location'' to (response c))\<rparr>, w))"

text \<open>The function behind a reference of a chain; \<open>user\<close> is the table of the
  application's handlers.\<close>

fun run_handler :: "(nat \<Rightarrow> (string, dynval, 'w) HandlerFunc) \<Rightarrow> handler_ref \<Rightarrow> (string, dynval, 'w) HandlerFunc" where
  "run_handler user Default404 = default404Handler"
| "run_handler user MethodNotAllowed = methodNotAllowedHandler"
| "run_handler user (Redirect code to) = redirectHandler code to"
| "run_handler user (User i) = user i"

text \<open>
  \<^verbatim>\<open>NewContext\<close> of context.go: \<^verbatim>\<open>make(Params, l.mostParams)\<close> is a slice of
  \<^verbatim>\<open>mostParams\<close> zero parameters. The request and the embedded context are nil until
  the first \<^verbatim>\<open>RequestStart\<close>; the model writes an empty request and the empty chain
  there.
\<close>

definition NewContext :: "LARS \<Rightarrow> ('k, 'v) Ctx" where
  "NewContext l =
     \<lparr>Context = Background,
      request = \<lparr>Method = [], Path = [], Form = (\<lambda>_. [])\<rparr>,
      response = fresh_writer,
      params = replicate (unat (mostParams l)) \<lparr>Key = [], Value = []\<rparr>,
      handlers = [],
      handlerName = [],
      index = 0,
      formParsed = False,
      multipartFormParsed = False\<rparr>"

section \<open>The route tree: Insert and Find\<close>

definition slashByte :: char where
  "slashByte = CHR ''/''"

definition colonByte :: char where
  "colonByte = CHR '':''"

definition startByte :: char where
  "startByte = CHR ''*''"

datatype error = ConflictingRoute

text \<open>A byte of a pattern is literal unless it is one of the two markers.\<close>

definition is_literal :: "char \<Rightarrow> bool" where
  "is_literal b = (b \<noteq> colonByte \<and> b \<noteq> startByte)"

text \<open>The static child for a byte is the one whose label begins with that byte.\<close>

definition keyed_by :: "char \<Rightarrow> node \<Rightarrow> bool" where
  "keyed_by b ch = (label ch \<noteq> [] \<and> hd (label ch) = b)"

definition static_child :: "node list \<Rightarrow> char \<Rightarrow> node option" where
  "static_child cs b = List.find (keyed_by b) cs"

definition put_static_child :: "node list \<Rightarrow> char \<Rightarrow> node \<Rightarrow> node list" where
  "put_static_child cs b new =
     (case static_child cs b of
        None \<Rightarrow> cs @ [new]
      | Some old \<Rightarrow> map (\<lambda>ch. if keyed_by b ch then new else ch) cs)"

text \<open>
  Splitting a node at a divergence point: the node keeps the shared prefix of its label,
  and a new node below it holds the rest of the label with the children and the chains
  the node had.
\<close>

definition split_node :: "nat \<Rightarrow> node \<Rightarrow> node" where
  "split_node k ch =
     Node (take k (label ch))
          [Node (drop k (label ch)) (static ch) (param ch) (wild ch) (chains ch)]
          None None []"

text \<open>
  Modelled from the spec: \<^verbatim>\<open>Insert(method, pattern, chain)\<close> of section 4.1 (the tree's
  file is not under src/). \<open>insert_at m chain p n\<close> registers the rest \<open>p\<close> of a pattern
  below the node \<open>n\<close>, whose label the pattern has already consumed.
  \<^item> Nothing left: \<open>n\<close> becomes a terminal for \<open>m\<close>; a second registration overwrites.
  \<^item> A parameter marker: the parameter child is created, or reused when its name is
    the same; another name, or a wildcard child at \<open>n\<close>, is a \<open>ConflictingRoute\<close>.
    The rest of the pattern after the segment goes below the parameter child.
  \<^item> A wildcard marker: the wildcard child holds the rest as its capture name and the
    chain; static or parameter children at \<open>n\<close>, or a wildcard of another name, are a
    \<open>ConflictingRoute\<close>.
  \<^item> A literal byte \<open>b\<close>: a wildcard child at \<open>n\<close> is a \<open>ConflictingRoute\<close>. Without a
    static child for \<open>b\<close>, a new child takes the literal part of the pattern as its label.
    With one, \<open>k\<close> is the longest prefix its label shares with the literal part after
    \<open>b\<close>; the child is split when its label is longer than that, and the pattern after
    the shared prefix goes below it.
\<close>

function insert_at :: "string \<Rightarrow> HandlersChain \<Rightarrow> string \<Rightarrow> node \<Rightarrow> error + node" where
  "insert_at m chain [] n =
     Inr (Node (label n) (static n) (param n) (wild n) (AList.update m chain (chains n)))"
| "insert_at m chain (b # rest) n =
     (if b = colonByte then
        (let name = takeWhile (\<lambda>x. x \<noteq> slashByte) rest;
             after = dropWhile (\<lambda>x. x \<noteq> slashByte) rest
         in if wild n \<noteq> None then Inl ConflictingRoute
            else
              (case param n of
                 None \<Rightarrow>
                   (case insert_at m chain after (Node [] [] None None []) of
                      Inl e \<Rightarrow> Inl e
                    | Inr ch \<Rightarrow> Inr (Node (label n) (static n) (Some (name, ch)) (wild n) (chains n)))
               | Some (name', old) \<Rightarrow>
                   if name' \<noteq> name then Inl ConflictingRoute
                   else
                     (case insert_at m chain after old of
                        Inl e \<Rightarrow> Inl e
                      | Inr ch \<Rightarrow> Inr (Node (label n) (static n) (Some (name, ch)) (wild n) (chains n)))))
      else if b = startByte then
        (if static n \<noteq> [] \<or> param n \<noteq> None then Inl ConflictingRoute
         else
           (case wild n of
              None \<Rightarrow> Inr (Node (label n) (static n) (param n) (Some (rest, [(m, chain)])) (chains n))
            | Some (name', cm) \<Rightarrow>
                if name' \<noteq> rest then Inl ConflictingRoute
                else Inr (Node (label n) (static n) (param n) (Some (rest, AList.update m chain cm)) (chains n))))
      else
        (if wild n \<noteq> None then Inl ConflictingRoute
         else
           (case static_child (static n) b of
              None \<Rightarrow>
                (case insert_at m chain (dropWhile is_literal rest)
                        (Node (b # takeWhile is_literal rest) [] None None []) of
                   Inl e \<Rightarrow> Inl e
                 | Inr ch \<Rightarrow> Inr (Node (label n) (put_static_child (static n) b ch) (param n) (wild n) (chains n)))
            | Some old \<Rightarrow>
                (let k = longest_common_prefix (tl (label old)) (takeWhile is_literal rest);
                     below = (if k = tl (label old) then old else split_node (Suc (length k)) old)
                 in case insert_at m chain (drop (length k) rest) below of
                      Inl e \<Rightarrow> Inl e
                    | Inr ch \<Rightarrow> Inr (Node (label n) (put_static_child (static n) b ch) (param n) (wild n) (chains n))))))"
  by pat_completeness auto
termination
  by (relation "measure (\<lambda>(m, chain, p, n). length p)")
     (auto intro: le_imp_less_Suc length_dropWhile_le)

text \<open>Registering routes one after the other; the first conflict ends the run.\<close>

fun Inserts :: "(string \<times> string \<times> HandlersChain) list \<Rightarrow> node \<Rightarrow> error + node" where
  "Inserts [] t = Inr t"
| "Inserts ((m, pattern, chain) # routes) t =
     (case insert_at m chain pattern t of Inl e \<Rightarrow> Inl e | Inr t' \<Rightarrow> Inserts routes t')"

text \<open>
  Modelled from the spec: the descent of \<^verbatim>\<open>Find\<close> (section 4.1). \<open>walk n p ps pat\<close>
  stands at the node \<open>n\<close>, whose label is consumed, with the rest \<open>p\<close> of the path, the
  parameters \<open>ps\<close> captured so far and the pattern \<open>pat\<close> followed so far.
  \<^item> The path is exhausted: the node reached, with its chains, when it is a terminal
    (it has a chain for some method); a node that is no terminal is a non-match.
  \<^item> Otherwise the children are tried in the fixed precedence order, and the first that
    leads to a terminal decides. The static child for the next byte is tried first; its
    label is matched byte by byte, and a mismatch within the label is a non-match of that
    child. The parameter child is tried second; it consumes one segment, up to the next
    \<open>/\<close> or the end, and an empty segment does not satisfy it. The wildcard child is
    tried last and consumes the rest of the path.
  \<^item> Running out of tree before the path is exhausted is a non-match.
  So a path that matches exactly one registered pattern is found (section 8), and of two
  patterns that match a path the more specific one wins. (The rationale of section 4.1
  calls each branch decision final. A descent that never tried the next child after a
  failed attempt would find no route for \<open>/a/b/c\<close> with \<open>/a/:x/c\<close> and \<open>/a/b/d\<close>
  registered, against section 8; the order of trial is what the model keeps.)
\<close>

function walk :: "node \<Rightarrow> string \<Rightarrow> Params \<Rightarrow> string \<Rightarrow> (chainMethods \<times> Params \<times> string) option" where
  "walk n [] ps pat = (if chains n = [] then None else Some (chains n, ps, pat))"
| "walk n (b # rest) ps pat =
     (case
        (case static_child (static n) b of
           Some ch \<Rightarrow>
             if prefix (tl (label ch)) rest
             then walk ch (drop (length (tl (label ch))) rest) ps (pat @ label ch)
             else None
         | None \<Rightarrow> None)
      of
        Some found \<Rightarrow> Some found
      | None \<Rightarrow>
          (case
             (case param n of
                Some (name, ch) \<Rightarrow>
                  if b = slashByte then None
                  else walk ch (dropWhile (\<lambda>x. x \<noteq> slashByte) rest)
                         (ps @ [\<lparr>Key = name, Value = b # takeWhile (\<lambda>x. x \<noteq> slashByte) rest\<rparr>])
                         (pat @ colonByte # name)
              | None \<Rightarrow> None)
           of
             Some found \<Rightarrow> Some found
           | None \<Rightarrow>
               (case wild n of
                  Some (name, cm) \<Rightarrow>
                    Some (cm, ps @ [\<lparr>Key = name, Value = b # rest\<rparr>], pat @ startByte # name)
                | None \<Rightarrow> None)))"
  by pat_completeness auto
termination
  by (relation "measure (\<lambda>(n, p, ps, pat). length p)")
     (auto intro: le_imp_less_Suc length_dropWhile_le)

text \<open>
  Modelled from the spec: the result of \<^verbatim>\<open>Find(method, path)\<close>. A match gives the
  chain of the method, the parameters in capture order and the matched pattern. A
  non-match reports the chains the other methods have at the terminal the path ends at
  (none when the descent found no terminal), and whether the path with its trailing slash
  toggled would match some method.
\<close>

datatype find_result = Match HandlersChain Params string | NoMatch chainMethods bool

definition toggle_slash :: "string \<Rightarrow> string" where
  "toggle_slash p = (if p \<noteq> [] \<and> last p = slashByte then butlast p else p @ [slashByte])"

definition would_match :: "node \<Rightarrow> string \<Rightarrow> bool" where
  "would_match t p = (case walk t p [] [] of Some (cm, ps, pat) \<Rightarrow> cm \<noteq> [] | None \<Rightarrow> False)"

definition Find :: "node \<Rightarrow> string \<Rightarrow> string \<Rightarrow> find_result" where
  "Find t m p =
     (case walk t p [] [] of
        Some (cm, ps, pat) \<Rightarrow>
          (case map_of cm m of
             Some chain \<Rightarrow> Match chain ps pat
           | None \<Rightarrow> NoMatch cm (would_match t (toggle_slash p)))
      | None \<Rightarrow> NoMatch [] (would_match t (toggle_slash p)))"

section \<open>The dispatcher\<close>

text \<open>
  Modelled from the spec: the status of the trailing-slash redirect (the function that
  chooses it is not under src/). Section 4.2: status 301 for the safe methods GET and
  HEAD, 307 for all others.
\<close>

definition redirect_code :: "string \<Rightarrow> nat" where
  "redirect_code m =
     (if m = GET \<or> m = HEAD then StatusMovedPermanently else StatusTemporaryRedirect)"

text \<open>
  Modelled from the spec: \<^verbatim>\<open>LARS.Find\<close>, which \<^verbatim>\<open>serveHTTP\<close> calls and which is not
  under src/. It applies the policy of section 4.2 to the result of the tree's
  \<^verbatim>\<open>Find\<close>, in the order the spec lists it: a match fills the chain and the
  parameters of the context; a non-match whose path would match with the trailing slash
  toggled, redirection being enabled, leaves only the redirect handler in the chain; a
  non-match where other methods have a chain, method-not-allowed handling being enabled,
  stores their chains under "methods" (the key \<^verbatim>\<open>methodNotAllowedHandler\<close> reads) and
  takes the 405 chain; anything else takes the 404 chain.
\<close>

definition LARS_Find :: "LARS \<Rightarrow> (string, dynval) Ctx \<Rightarrow> (string, dynval) Ctx" where
  "LARS_Find l c =
     (case Find (head l) (Method (request c)) (Path (request c)) of
        Match chain ps pat \<Rightarrow> c\<lparr>handlers := chain, params := ps\<rparr>
      | NoMatch allowed tsr \<Rightarrow>
          if redirectTrailingSlash l \<and> tsr
          then c\<lparr>handlers := [Redirect (redirect_code (Method (request c))) (toggle_slash (Path (request c)))]\<rparr>
          else if handleMethodNotAllowed l \<and> allowed \<noteq> []
          then (Ctx_Set c ''methods'' (Boxed (ChainMethods allowed)))\<lparr>handlers := http405 l\<rparr>
          else c\<lparr>handlers := http404 l\<rparr>)"

text \<open>
  \<^verbatim>\<open>LARS.serveHTTP\<close>: the context \<open>c\<close> is the one the pool hands out and the result is
  the one put back. \<^verbatim>\<open>c.Reset(w, r)\<close> is the reset that context.go declares as
  \<^verbatim>\<open>RequestStart\<close>, and \<^verbatim>\<open>c.Next(c)\<close> is \<^verbatim>\<open>Next\<close>.
\<close>

definition serveHTTP ::
  "nat \<Rightarrow> (nat \<Rightarrow> (string, dynval, 'w) HandlerFunc) \<Rightarrow> LARS \<Rightarrow> Response \<Rightarrow> Request \<Rightarrow>
   (string, dynval) Ctx \<times> 'w \<Rightarrow> ((string, dynval) Ctx \<times> 'w) outcome" where
  "serveHTTP fuel user l w r = (\<lambda>(c, world).
     Ctx_Next fuel (run_handler user) (LARS_Find l (Ctx_RequestStart w r c), world))"

section \<open>Handlers and values of the examples\<close>

text \<open>Handlers that record events in a log outside the context.\<close>

datatype event = Enter nat | Exit nat

definition record_event :: "'e \<Rightarrow> 'c \<times> 'e list \<Rightarrow> 'c \<times> 'e list" where
  "record_event e = (\<lambda>(c, log). (c, log @ [e]))"

text \<open>Records \<open>enter\<close>, calls \<^verbatim>\<open>c.Next()\<close> once, records \<open>exit\<close>. A panic below
  unwinds through the handler, so the exit is not recorded then.\<close>

definition wrapping :: "'e \<Rightarrow> 'e \<Rightarrow> ('k, 'v, 'e list) HandlerFunc" where
  "wrapping enter exit next s =
     (case next (record_event enter s) of
        Returned s' \<Rightarrow> Returned (record_event exit s')
      | Panicked p s' \<Rightarrow> Panicked p s'
      | OutOfFuel \<Rightarrow> OutOfFuel)"

text \<open>Records \<open>enter\<close> and \<open>exit\<close> and never calls \<^verbatim>\<open>c.Next()\<close>.\<close>

definition closing :: "'e \<Rightarrow> 'e \<Rightarrow> ('k, 'v, 'e list) HandlerFunc" where
  "closing enter exit next s = Returned (record_event exit (record_event enter s))"

text \<open>Records \<open>enter\<close> and returns.\<close>

definition stopping :: "'e \<Rightarrow> ('k, 'v, 'e list) HandlerFunc" where
  "stopping enter next s = Returned (record_event enter s)"

text \<open>The table of an application with three handlers, numbered 1, 2 and 3.\<close>

definition table3 :: "'h \<Rightarrow> 'h \<Rightarrow> 'h \<Rightarrow> nat \<Rightarrow> 'h" where
  "table3 h1 h2 h3 i = (if i = 1 then h1 else if i = 2 then h2 else h3)"

definition request0 :: Request where
  "request0 = \<lparr>Method = GET, Path = ''/'', Form = (\<lambda>_. [])\<rparr>"

text \<open>A pooled context of a new router, reset for a request.\<close>

definition ctx0 :: "(string, dynval) Ctx" where
  "ctx0 = Ctx_RequestStart fresh_writer request0 (NewContext New)"



text \<open>The tree of one static and one parameter route below a common prefix.\<close>

definition leaf :: "string \<Rightarrow> string \<Rightarrow> HandlersChain \<Rightarrow> node" where
  "leaf l m chain = Node l [] None None [(m, chain)]"


definition foo_tree :: node where
  "foo_tree = Node [] [leaf ''/foo'' GET [User 1]] None None []"



section \<open>Properties of context.go\<close>

subsection \<open>RequestStart\<close>

lemma request_RequestStart: "request (Ctx_RequestStart w r c) = r"
  by (simp add: Ctx_RequestStart_def)

lemma response_RequestStart: "response (Ctx_RequestStart w r c) = w"
  by (simp add: Ctx_RequestStart_def Response_reset_def)

lemma index_RequestStart: "index (Ctx_RequestStart w r c) = - 1"
  by (simp add: Ctx_RequestStart_def)

text \<open>
  C2. Whatever a pooled context holds when it is taken up again (here: any run of
  \<^verbatim>\<open>Set\<close> calls, any parameters, any cursor), after \<^verbatim>\<open>RequestStart\<close> the
  parameter slice has length zero, the embedded context is the background context, so
  that \<^verbatim>\<open>Get\<close> finds no key at all, and the cursor stands before the first handler.
  The chain and the two form flags are cleared as well.
\<close>

theorem RequestStart_clears:
  "params (Ctx_RequestStart w r ((Ctx_Sets c kvs)\<lparr>params := ps, index := i\<rparr>)) = []
   \<and> length (params (Ctx_RequestStart w r ((Ctx_Sets c kvs)\<lparr>params := ps, index := i\<rparr>))) = 0
   \<and> Context (Ctx_RequestStart w r ((Ctx_Sets c kvs)\<lparr>params := ps, index := i\<rparr>)) = Background
   \<and> (\<forall>key. Ctx_Get (Ctx_RequestStart w r ((Ctx_Sets c kvs)\<lparr>params := ps, index := i\<rparr>)) key = (GoNil, False))
   \<and> index (Ctx_RequestStart w r ((Ctx_Sets c kvs)\<lparr>params := ps, index := i\<rparr>)) = - 1
   \<and> handlers (Ctx_RequestStart w r ((Ctx_Sets c kvs)\<lparr>params := ps, index := i\<rparr>)) = []
   \<and> \<not> formParsed (Ctx_RequestStart w r ((Ctx_Sets c kvs)\<lparr>params := ps, index := i\<rparr>))
   \<and> \<not> multipartFormParsed (Ctx_RequestStart w r ((Ctx_Sets c kvs)\<lparr>params := ps, index := i\<rparr>))"
  by (simp add: Ctx_RequestStart_def Ctx_Get_def Background_def)

subsection \<open>Set and Get\<close>

lemma ctx_Value_absent: "key \<notin> fst ` set kvs \<Longrightarrow> ctx_Value kvs key = GoNil"
  by (induction kvs) auto

lemma ctx_Value_append: "key \<notin> fst ` set kvs \<Longrightarrow> ctx_Value (kvs @ rest) key = ctx_Value rest key"
  by (induction kvs) auto

lemma Context_Sets: "Context (Ctx_Sets c kvs) = rev kvs @ Context c"
  by (induction c kvs rule: Ctx_Sets.induct) (simp_all add: Ctx_Set_def WithValue_def)

text \<open>
  C3, as the code has it. \<^verbatim>\<open>Get\<close> computes \<^verbatim>\<open>exists = value != nil\<close>. A key stored
  with a value that is not the nil interface (the empty string and the number zero
  included) is reported with that value and \<open>exists = True\<close>, also after other keys were
  stored; a key stored with the nil interface is reported as absent; and a key that no
  \<^verbatim>\<open>Set\<close> since the reset has stored is reported as absent.
\<close>

theorem Get_reports_non_nil:
  "(key \<notin> fst ` set kvs \<longrightarrow>
      Ctx_Get (Ctx_Sets (Ctx_Set c key (Boxed v)) kvs) key = (Boxed v, True))
   \<and> Ctx_Get (Ctx_Set c key GoNil) key = (GoNil, False)
   \<and> (key \<notin> fst ` set kvs \<longrightarrow>
      Ctx_Get (Ctx_Sets (Ctx_RequestStart w r c) kvs) key = (GoNil, False))"
  by (simp add: Ctx_Get_def Context_Sets ctx_Value_append ctx_Value_absent Ctx_Set_def
      WithValue_def Ctx_RequestStart_def Background_def)

text \<open>The empty string is stored under "a", a zero under "b"; "a" is found, and after a
  reset it is not.\<close>

theorem Get_reports_non_nil_witness:
  "Ctx_Get (Ctx_Sets (Ctx_Set ctx0 ''a'' (Boxed (StringV []))) [(''b'', Boxed (IntV 0))]) ''a''
     = (Boxed (StringV []), True)
   \<and> Ctx_Get (Ctx_Set ctx0 ''a'' GoNil) ''a'' = (GoNil, False)
   \<and> Ctx_Get (Ctx_Sets (Ctx_RequestStart fresh_writer request0 ctx0) [(''b'', Boxed (IntV 0))]) ''a''
     = (GoNil, False)"
  using Get_reports_non_nil [of "''a''" "[(''b'', Boxed (IntV 0))]" ctx0 "StringV []" fresh_writer request0]
  by simp

text \<open>C3 as stated fails for the nil interface: the key "a" was stored via \<^verbatim>\<open>Set\<close>,
  and \<^verbatim>\<open>Get\<close> reports \<open>exists = False\<close>.\<close>

theorem Get_nil_reported_absent:
  "Ctx_Get (Ctx_Set ctx0 ''a'' GoNil) ''a'' = (GoNil, False)"
  by (simp add: Ctx_Get_def Ctx_Set_def WithValue_def)

subsection \<open>Param\<close>

lemma Param_range_find:
  "Param_range ps name = (case List.find (\<lambda>e. Key e = name) ps of Some e \<Rightarrow> Value e | None \<Rightarrow> [])"
  by (induction ps) (simp_all add: blank_def)

lemma Param_range_filter: "Param_range (filter (\<lambda>e. Key e \<noteq> name) ps @ qs) name = Param_range qs name"
  by (induction ps) simp_all

text \<open>
  C9. \<^verbatim>\<open>Param(name)\<close> is the value of the first parameter whose key is \<open>name\<close>, and
  the empty string when there is none. So a slice without the key and a slice whose first
  parameter of that key holds the empty string give the same answer.
\<close>

theorem Param_first_match:
  "Ctx_Param c name = (case List.find (\<lambda>e. Key e = name) (params c) of Some e \<Rightarrow> Value e | None \<Rightarrow> [])
   \<and> Ctx_Param (c\<lparr>params := filter (\<lambda>e. Key e \<noteq> name) ps\<rparr>) name = []
   \<and> Ctx_Param (c\<lparr>params := filter (\<lambda>e. Key e \<noteq> name) ps @ \<lparr>Key = name, Value = []\<rparr> # qs\<rparr>) name = []"
proof -
  have "Param_range (filter (\<lambda>e. Key e \<noteq> name) ps @ []) name = []"
    unfolding Param_range_filter by (simp add: blank_def)
  then show ?thesis
    by (simp add: Ctx_Param_def Param_range_find [symmetric] Param_range_filter)
qed

subsection \<open>ParseForm\<close>

lemma Form_range_values:
  "Form_range ps form k = form k @ map Value (filter (\<lambda>e. Key e = k) ps)"
  by (induction ps arbitrary: form) (simp_all add: Values_Add_def)

text \<open>
  C10. The first call that succeeds on a context whose form is not yet parsed leaves, under
  every key, the values the parse of net/http gave followed by the values of the
  parameters of that key, each once and in order, and sets \<^verbatim>\<open>formParsed\<close>. Every
  later call returns nil and changes nothing, whatever the parse would do; the next
  \<^verbatim>\<open>RequestStart\<close> clears the flag.
\<close>

theorem ParseForm_idempotent:
  assumes "\<not> formParsed c" and "Ctx_ParseForm parse c = (None, c1)"
  shows "(\<forall>k. Form (request c1) k =
              Form (snd (parse (request c))) k @ map Value (filter (\<lambda>e. Key e = k) (params c)))
    \<and> formParsed c1
    \<and> (\<forall>parse'. Ctx_ParseForm parse' c1 = (None, c1))
    \<and> \<not> formParsed (Ctx_RequestStart w r c1)"
  using assms
  by (auto simp: Ctx_ParseForm_def Form_range_values Ctx_RequestStart_def split: prod.splits option.splits)

text \<open>The query gave \<open>id=7\<close>; the route captured \<open>id=13\<close> and \<open>ok=true\<close>.\<close>

theorem ParseForm_idempotent_witness:
  "\<not> formParsed (ctx0\<lparr>params := [\<lparr>Key = ''id'', Value = ''13''\<rparr>, \<lparr>Key = ''ok'', Value = ''true''\<rparr>]\<rparr>)
   \<and> fst (Ctx_ParseForm (\<lambda>r. (None, r\<lparr>Form := (\<lambda>_. [])(''id'' := [''7''])\<rparr>))
        (ctx0\<lparr>params := [\<lparr>Key = ''id'', Value = ''13''\<rparr>, \<lparr>Key = ''ok'', Value = ''true''\<rparr>]\<rparr>)) = None
   \<and> Form (request (snd (Ctx_ParseForm (\<lambda>r. (None, r\<lparr>Form := (\<lambda>_. [])(''id'' := [''7''])\<rparr>))
        (ctx0\<lparr>params := [\<lparr>Key = ''id'', Value = ''13''\<rparr>, \<lparr>Key = ''ok'', Value = ''true''\<rparr>]\<rparr>)))) ''id''
      = [''7'', ''13'']
   \<and> Ctx_ParseForm (\<lambda>r. (None, r\<lparr>Form := (\<lambda>_. [])(''id'' := [''7''])\<rparr>))
        (snd (Ctx_ParseForm (\<lambda>r. (None, r\<lparr>Form := (\<lambda>_. [])(''id'' := [''7''])\<rparr>))
          (ctx0\<lparr>params := [\<lparr>Key = ''id'', Value = ''13''\<rparr>, \<lparr>Key = ''ok'', Value = ''true''\<rparr>]\<rparr>)))
      = (None, snd (Ctx_ParseForm (\<lambda>r. (None, r\<lparr>Form := (\<lambda>_. [])(''id'' := [''7''])\<rparr>))
          (ctx0\<lparr>params := [\<lparr>Key = ''id'', Value = ''13''\<rparr>, \<lparr>Key = ''ok'', Value = ''true''\<rparr>]\<rparr>)))"
  using ParseForm_idempotent
    [of "ctx0\<lparr>params := [\<lparr>Key = ''id'', Value = ''13''\<rparr>, \<lparr>Key = ''ok'', Value = ''true''\<rparr>]\<rparr>"
        "\<lambda>r. (None, r\<lparr>Form := (\<lambda>_. [])(''id'' := [''7''])\<rparr>)"
        "snd (Ctx_ParseForm (\<lambda>r. (None, r\<lparr>Form := (\<lambda>_. [])(''id'' := [''7''])\<rparr>))
          (ctx0\<lparr>params := [\<lparr>Key = ''id'', Value = ''13''\<rparr>, \<lparr>Key = ''ok'', Value = ''true''\<rparr>]\<rparr>))"]
  by (simp add: Ctx_ParseForm_def ctx0_def Ctx_RequestStart_def)

subsection \<open>Next\<close>

lemma Next_first:
  "index c = - 1 \<Longrightarrow> handlers c = h # hs \<Longrightarrow>
   Ctx_Next (Suc n) impl (c, w) = impl h (Ctx_Next n impl) (c\<lparr>index := 0\<rparr>, w)"
  by (simp add: Let_def)

text \<open>
  C1, as the code has it. \<^verbatim>\<open>Next\<close> has no bounds check: with the cursor at or past
  the last handler, \<^verbatim>\<open>c.index++\<close> leaves the index at or past the length of the
  chain and \<^verbatim>\<open>c.handlers[c.index]\<close> panics. No handler is invoked (the result does
  not depend on the handlers, and the state outside the context is untouched), but the
  cursor has moved and the call faults.
\<close>

theorem Next_past_end_panics:
  "int (length (handlers c)) \<le> index c + 1 \<Longrightarrow>
   Ctx_Next (Suc fuel) impl (c, w) = Panicked IndexOutOfRange (c\<lparr>index := index c + 1\<rparr>, w)"
  by (simp add: Let_def)

text \<open>A chain of two handlers with the cursor already past its end.\<close>

theorem Next_past_end_panics_witness:
  "int (length (handlers (ctx0\<lparr>handlers := [User 1, User 2], index := 5\<rparr>)))
     \<le> index (ctx0\<lparr>handlers := [User 1, User 2], index := 5\<rparr>) + 1
   \<and> Ctx_Next (Suc 0) (run_handler (table3 (stopping (Enter 1)) (stopping (Enter 2)) (stopping (Enter 3))))
       (ctx0\<lparr>handlers := [User 1, User 2], index := 5\<rparr>, [])
     = Panicked IndexOutOfRange (ctx0\<lparr>handlers := [User 1, User 2], index := 6\<rparr>, [])"
  using Next_past_end_panics
    [of "ctx0\<lparr>handlers := [User 1, User 2], index := 5\<rparr>" 0
        "run_handler (table3 (stopping (Enter 1)) (stopping (Enter 2)) (stopping (Enter 3)))" "[]"]
  by simp

text \<open>C1 as stated fails: the only handler of the chain has run (the cursor is at 0, the
  last position), and \<^verbatim>\<open>Next\<close> is not a no-op but a panic.\<close>

theorem Next_at_last_handler_not_noop:
  "Ctx_Next 1 (run_handler (table3 (stopping (Enter 1)) (stopping (Enter 2)) (stopping (Enter 3))))
     (ctx0\<lparr>handlers := [User 1], index := 0\<rparr>, [])
   = Panicked IndexOutOfRange (ctx0\<lparr>handlers := [User 1], index := 1\<rparr>, [])"
  by (simp add: Let_def ctx0_def Ctx_RequestStart_def)

text \<open>
  C5, as the code has it. The chain runs from the cursor before the first handler. When
  the first two handlers record enter, call \<^verbatim>\<open>Next\<close> once and record exit, and the
  last handler records enter and exit without calling \<^verbatim>\<open>Next\<close>, the events are
  enter1, enter2, enter3, exit3, exit2, exit1. When the last handler calls \<^verbatim>\<open>Next\<close>
  too, that call panics after enter3 and no exit is recorded. When handler 2 records
  enter and never calls \<^verbatim>\<open>Next\<close>, the events are enter1, enter2, exit1, whatever
  handler 3 is: it is never invoked.
\<close>

theorem Next_nesting_order:
  "Ctx_Next (3 + n) (run_handler (table3 (wrapping e1 x1) (wrapping e2 x2) (closing e3 x3)))
       ((Ctx_RequestStart w r c)\<lparr>handlers := [User 1, User 2, User 3]\<rparr>, log)
     = Returned ((Ctx_RequestStart w r c)\<lparr>handlers := [User 1, User 2, User 3], index := 2\<rparr>,
                 log @ [e1, e2, e3, x3, x2, x1])
   \<and> Ctx_Next (4 + n) (run_handler (table3 (wrapping e1 x1) (wrapping e2 x2) (wrapping e3 x3)))
       ((Ctx_RequestStart w r c)\<lparr>handlers := [User 1, User 2, User 3]\<rparr>, log)
     = Panicked IndexOutOfRange
         ((Ctx_RequestStart w r c)\<lparr>handlers := [User 1, User 2, User 3], index := 3\<rparr>,
          log @ [e1, e2, e3])
   \<and> Ctx_Next (2 + n) (run_handler (table3 (wrapping e1 x1) (stopping e2) h3))
       ((Ctx_RequestStart w r c)\<lparr>handlers := [User 1, User 2, User 3]\<rparr>, log)
     = Returned ((Ctx_RequestStart w r c)\<lparr>handlers := [User 1, User 2, User 3], index := 1\<rparr>,
                 log @ [e1, e2, x1])"
  by (simp add: numeral_eq_Suc Let_def Ctx_RequestStart_def table3_def wrapping_def closing_def
      stopping_def record_event_def)

text \<open>C5 as stated fails: three handlers that each record enter, call \<^verbatim>\<open>Next\<close> once
  and record exit end in a panic with the events enter1, enter2, enter3 only.\<close>

theorem Next_three_wrapping_handlers_panic:
  "Ctx_Next 4
     (run_handler (table3 (wrapping (Enter 1) (Exit 1)) (wrapping (Enter 2) (Exit 2)) (wrapping (Enter 3) (Exit 3))))
     (ctx0\<lparr>handlers := [User 1, User 2, User 3]\<rparr>, [])
   = Panicked IndexOutOfRange
       (ctx0\<lparr>handlers := [User 1, User 2, User 3], index := 3\<rparr>, [Enter 1, Enter 2, Enter 3])"
  by (simp add: numeral_eq_Suc Let_def ctx0_def Ctx_RequestStart_def table3_def wrapping_def
      record_event_def)

section \<open>Properties of lars.go\<close>

text \<open>
  C8. The router \<^verbatim>\<open>New\<close> returns has trailing-slash redirection enabled and
  method-not-allowed handling disabled; its 404 chain is the one handler
  \<^verbatim>\<open>default404Handler\<close>, which answers a fresh request with status 404 and the text
  of that status, and its 405 chain is the one handler \<^verbatim>\<open>methodNotAllowedHandler\<close>.
\<close>

theorem New_defaults:
  "redirectTrailingSlash New = True
   \<and> handleMethodNotAllowed New = False
   \<and> http404 New = [Default404]
   \<and> http405 New = [MethodNotAllowed]
   \<and> run_handler user Default404 = default404Handler
   \<and> run_handler user MethodNotAllowed = methodNotAllowedHandler
   \<and> (\<exists>c'. Ctx_Next (Suc n) (run_handler user)
              ((Ctx_RequestStart fresh_writer r c)\<lparr>handlers := http404 New\<rparr>, w) = Returned (c', w)
         \<and> status (response c') = Some 404
         \<and> body (response c') = ''Not Found'' @ [CHR 0x0A])"
  by (simp add: New_def Let_def Ctx_RequestStart_def default404Handler_def http_Error_def Write_def
      WriteHeader_def Header_Set_def Response_reset_def fresh_writer_def StatusNotFound_def
      StatusText_NotFound_def)

section \<open>Properties of the route tree\<close>










subsection \<open>Registering a static and a parameter route\<close>




subsection \<open>Finding in the tree of the two routes\<close>









section \<open>Properties of the dispatcher\<close>

lemma foo_tree_Inserts: "Inserts [(GET, ''/foo'', [User 1])] (head New) = Inr foo_tree"
  by (simp add: foo_tree_def leaf_def New_def static_child_def put_static_child_def is_literal_def
      colonByte_def startByte_def)



lemma Find_foo_slash: "Find foo_tree m ''/foo/'' = NoMatch [] True"
  by (simp add: Find_def would_match_def toggle_slash_def foo_tree_def leaf_def static_child_def
      keyed_by_def slashByte_def)



lemma POST_not_GET: "POST \<noteq> GET"
  by (simp add: POST_def GET_def)

lemma POST_not_HEAD: "POST \<noteq> HEAD"
  by (simp add: POST_def HEAD_def)



subsection \<open>The trailing-slash redirect\<close>

text \<open>
  C6. When \<^verbatim>\<open>Find\<close> reports no match for the path of the request, the path with its
  trailing slash toggled would match, and redirection is enabled, the request ends after
  the redirect handler alone: the status is 301 for GET and HEAD and 307 for every other
  method, \<^verbatim>\<open>Location\<close> is the toggled path, and nothing the application registered
  has run (the chain holds the redirect handler only, the result does not depend on the
  table of the application's handlers, and the state outside the context is as it was).
\<close>

theorem redirect_trailing_slash:
  assumes "redirectTrailingSlash l"
    and "Find (head l) (Method r) (Path r) = NoMatch allowed True"
  shows "\<exists>c'. serveHTTP (Suc n) user l fresh_writer r (c, world) = Returned (c', world)
           \<and> handlers c' =
               [Redirect (if Method r = GET \<or> Method r = HEAD then 301 else 307) (toggle_slash (Path r))]
           \<and> status (response c') = Some (if Method r = GET \<or> Method r = HEAD then 301 else 307)
           \<and> header (response c') ''Location'' = [toggle_slash (Path r)]
           \<and> body (response c') = []"
  using assms
  by (simp add: serveHTTP_def LARS_Find_def request_RequestStart index_RequestStart Next_first
      response_RequestStart redirectHandler_def redirect_code_def WriteHeader_def Header_Set_def
      fresh_writer_def StatusMovedPermanently_def StatusTemporaryRedirect_def)

text \<open>The route \<open>/foo\<close> and the requests GET, HEAD and POST \<open>/foo/\<close>.\<close>

theorem redirect_trailing_slash_witness:
  "redirectTrailingSlash (New\<lparr>head := foo_tree\<rparr>)
   \<and> Find (head (New\<lparr>head := foo_tree\<rparr>)) GET ''/foo/'' = NoMatch [] True
   \<and> (\<exists>c'. serveHTTP (Suc 0) (table3 (stopping (Enter 1)) (stopping (Enter 2)) (stopping (Enter 3)))
              (New\<lparr>head := foo_tree\<rparr>) fresh_writer \<lparr>Method = GET, Path = ''/foo/'', Form = (\<lambda>_. [])\<rparr> (ctx0, [])
            = Returned (c', [])
          \<and> handlers c' = [Redirect 301 ''/foo'']
          \<and> status (response c') = Some 301
          \<and> header (response c') ''Location'' = [''/foo''])
   \<and> (\<exists>c'. serveHTTP (Suc 0) (table3 (stopping (Enter 1)) (stopping (Enter 2)) (stopping (Enter 3)))
              (New\<lparr>head := foo_tree\<rparr>) fresh_writer \<lparr>Method = HEAD, Path = ''/foo/'', Form = (\<lambda>_. [])\<rparr> (ctx0, [])
            = Returned (c', [])
          \<and> handlers c' = [Redirect 301 ''/foo'']
          \<and> status (response c') = Some 301
          \<and> header (response c') ''Location'' = [''/foo''])
   \<and> (\<exists>c'. serveHTTP (Suc 0) (table3 (stopping (Enter 1)) (stopping (Enter 2)) (stopping (Enter 3)))
              (New\<lparr>head := foo_tree\<rparr>) fresh_writer \<lparr>Method = POST, Path = ''/foo/'', Form = (\<lambda>_. [])\<rparr> (ctx0, [])
            = Returned (c', [])
          \<and> handlers c' = [Redirect 307 ''/foo'']
          \<and> status (response c') = Some 307
          \<and> header (response c') ''Location'' = [''/foo''])"
proof -
  have r: "redirectTrailingSlash (New\<lparr>head := foo_tree\<rparr>)"
    by (simp add: New_def)
  have ts: "toggle_slash ''/foo/'' = ''/foo''"
    by (simp add: toggle_slash_def slashByte_def)
  show ?thesis
    using redirect_trailing_slash
            [of "New\<lparr>head := foo_tree\<rparr>" "\<lparr>Method = GET, Path = ''/foo/'', Form = (\<lambda>_. [])\<rparr>" "[]" 0
                "table3 (stopping (Enter 1)) (stopping (Enter 2)) (stopping (Enter 3))" ctx0 "[]"]
          redirect_trailing_slash
            [of "New\<lparr>head := foo_tree\<rparr>" "\<lparr>Method = HEAD, Path = ''/foo/'', Form = (\<lambda>_. [])\<rparr>" "[]" 0
                "table3 (stopping (Enter 1)) (stopping (Enter 2)) (stopping (Enter 3))" ctx0 "[]"]
          redirect_trailing_slash
            [of "New\<lparr>head := foo_tree\<rparr>" "\<lparr>Method = POST, Path = ''/foo/'', Form = (\<lambda>_. [])\<rparr>" "[]" 0
                "table3 (stopping (Enter 1)) (stopping (Enter 2)) (stopping (Enter 3))" ctx0 "[]"]
    by (auto simp: r ts POST_not_GET POST_not_HEAD Find_foo_slash)
qed

subsection \<open>Method not allowed\<close>







end
